theory Spec2Isabelle
  imports Complex_Main
begin

section \<open>Time tracker: the monthly projection engine of \<open>time_tracker.py\<close>\<close>

text \<open>
  The theory embeds the calculations of \<open>src/time_tracker/time_tracker.py\<close>:
  \<open>calculate_client_hours\<close>, \<open>is_work_day\<close>, \<open>get_work_days_in_month\<close>,
  \<open>calculate_monthly_stats\<close> and the chart loop of \<open>show_dashboard\<close>.

  Conventions of the embedding.
  \<^item> A pandas data frame is the list of its rows, each row a record of its columns.
  \<^item> A Python or numpy float is a rational number (\<open>rat\<close>). The sums, products and
    quotients of the statistics are taken without rounding. The additions that the chart
    loop repeats day by day on its running totals are the parameter \<open>fadd\<close>: float
    addition, whatever its rounding.
  \<^item> An exception is a value \<open>Inl e\<close> of the result type \<open>py_error + 'a\<close>.
  \<^item> \<open>datetime.now()\<close> is an explicit argument.
  \<^item> A \<open>datetime\<close> or pandas \<open>Timestamp\<close> is a calendar date together with a time of day;
    \<open>datetime(year, month, day)\<close> is midnight of that date.
\<close>

subsection \<open>Python values and errors\<close>

datatype py_error = ValueError | ZeroDivisionError

text \<open>
  A scalar read from a data frame cell whose column holds text: Python's \<open>None\<close>, the
  missing value \<open>NaN\<close> that \<open>read_csv\<close> gives for an empty cell, or a string.
\<close>

datatype cell = PyNone | NaN | Str string

text \<open>\<open>pd.isna\<close> on a cell.\<close>

fun isna :: "cell \<Rightarrow> bool" where
  "isna PyNone = True"
| "isna NaN = True"
| "isna (Str s) = False"

text \<open>Python's truth value of a cell: \<open>None\<close> and the empty string are false, \<open>NaN\<close> is true.\<close>

fun truthy :: "cell \<Rightarrow> bool" where
  "truthy PyNone = False"
| "truthy NaN = True"
| "truthy (Str s) = (s \<noteq> [])"

text \<open>Python's true division of two numbers.\<close>

definition py_div :: "rat \<Rightarrow> rat \<Rightarrow> py_error + rat" where
  "py_div a b = (if b = 0 then Inl ZeroDivisionError else Inr (a / b))"

text \<open>\<open>str.split(sep)\<close> for a one-character separator.\<close>

fun str_split :: "char \<Rightarrow> string \<Rightarrow> string list" where
  "str_split sep [] = [[]]"
| "str_split sep (c # cs) =
     (if c = sep then [] # str_split sep cs
      else (case str_split sep cs of
              [] \<Rightarrow> [[c]]
            | w # ws \<Rightarrow> (c # w) # ws))"

subsection \<open>Calendar: \<open>datetime\<close> and \<open>calendar\<close> of the standard library\<close>

record date =
  d_year :: int
  d_month :: int
  d_day :: int

record timestamp =
  ts_date :: date
  ts_time :: nat

definition mk_date :: "int \<Rightarrow> int \<Rightarrow> int \<Rightarrow> date" where
  "mk_date y m d = \<lparr>d_year = y, d_month = m, d_day = d\<rparr>"

definition isleap :: "int \<Rightarrow> bool" where
  "isleap year = (year mod 4 = 0 \<and> (year mod 100 \<noteq> 0 \<or> year mod 400 = 0))"

definition monthlen :: "int \<Rightarrow> int \<Rightarrow> int" where
  "monthlen year month =
     (if month = 2 then (if isleap year then 29 else 28)
      else if month = 4 \<or> month = 6 \<or> month = 9 \<or> month = 11 then 30
      else 31)"

text \<open>\<open>calendar.monthrange(year, month)[1]\<close>: the month must be in 1..12.\<close>

definition monthrange_days :: "int \<Rightarrow> int \<Rightarrow> py_error + int" where
  "monthrange_days year month =
     (if 1 \<le> month \<and> month \<le> 12 then Inr (monthlen year month) else Inl ValueError)"

text \<open>
  \<open>datetime(year, month, day)\<close>: midnight of the date, \<open>ValueError\<close> unless
  \<open>1 \<le> year \<le> 9999\<close>, \<open>1 \<le> month \<le> 12\<close> and the day exists in the month.
\<close>

definition datetime :: "int \<Rightarrow> int \<Rightarrow> int \<Rightarrow> py_error + timestamp" where
  "datetime year month day =
     (if 1 \<le> year \<and> year \<le> 9999 \<and> 1 \<le> month \<and> month \<le> 12
         \<and> 1 \<le> day \<and> day \<le> monthlen year month
      then Inr \<lparr>ts_date = mk_date year month day, ts_time = 0\<rparr>
      else Inl ValueError)"

text \<open>Comparison of dates and of timestamps, as Python compares them.\<close>

definition date_le :: "date \<Rightarrow> date \<Rightarrow> bool" where
  "date_le a b =
     (d_year a < d_year b
      \<or> (d_year a = d_year b
          \<and> (d_month a < d_month b \<or> (d_month a = d_month b \<and> d_day a \<le> d_day b))))"

definition ts_le :: "timestamp \<Rightarrow> timestamp \<Rightarrow> bool" where
  "ts_le a b =
     (if ts_date a = ts_date b then ts_time a \<le> ts_time b
      else date_le (ts_date a) (ts_date b))"

text \<open>\<open>date.weekday()\<close> through the proleptic Gregorian ordinal; Monday is 0.\<close>

definition days_before_year :: "int \<Rightarrow> int" where
  "days_before_year year =
     (year - 1) * 365 + (year - 1) div 4 - (year - 1) div 100 + (year - 1) div 400"

definition days_before_month :: "int \<Rightarrow> int \<Rightarrow> int" where
  "days_before_month year month = sum_list (map (monthlen year) [1..month - 1])"

definition toordinal :: "date \<Rightarrow> int" where
  "toordinal d = days_before_year (d_year d) + days_before_month (d_year d) (d_month d) + d_day d"

definition weekday :: "date \<Rightarrow> int" where
  "weekday d = (toordinal d + 6) mod 7"

text \<open>\<open>calendar.day_name[i]\<close> for \<open>i\<close> in 0..6.\<close>

definition day_name :: "int \<Rightarrow> string" where
  "day_name i =
     [''Monday'', ''Tuesday'', ''Wednesday'', ''Thursday'', ''Friday'', ''Saturday'', ''Sunday'']
       ! nat i"

subsection \<open>The tables\<close>

record client =
  c_client_name :: string
  c_hourly_rate :: rat
  c_billing_type :: string
  c_active :: bool
  c_has_hour_limit :: bool
  c_limit_type :: cell
  c_hour_limit :: rat
  c_contract_start_date :: cell

record time_entry =
  e_date :: timestamp
  e_client_name :: string
  e_hours :: rat
  e_notes :: string

record invoice =
  i_date :: timestamp
  i_client_name :: string
  i_amount :: rat
  i_type :: string
  i_description :: string

record settings =
  s_monthly_target :: rat
  s_work_days :: string

record non_work_day =
  n_date :: date
  n_reason :: string

subsection \<open>\<open>calculate_client_hours\<close>\<close>

text \<open>
  \<open>pd.to_datetime\<close> on a scalar: it raises, or gives the missing timestamp \<open>NaT\<close>, or a
  timestamp. What it makes of a string is the parameter \<open>parse\<close>; a missing value
  (\<open>None\<close>, \<open>NaN\<close>) becomes \<open>NaT\<close>.
\<close>

datatype parsed = Raises | NaT | Parsed timestamp

fun to_datetime :: "(string \<Rightarrow> parsed) \<Rightarrow> cell \<Rightarrow> parsed" where
  "to_datetime parse PyNone = NaT"
| "to_datetime parse NaN = NaT"
| "to_datetime parse (Str s) = parse s"

text \<open>\<open>df['hours'].sum()\<close>.\<close>

definition hours_sum :: "time_entry list \<Rightarrow> rat" where
  "hours_sum df = sum_list (map e_hours df)"

text \<open>
  The arguments \<open>year\<close> and \<open>month\<close> are optional (\<open>None\<close> by default); \<open>now\<close> is
  \<open>datetime.now()\<close>. A comparison of a timestamp with \<open>NaT\<close> is false.
\<close>

definition calculate_client_hours ::
  "(string \<Rightarrow> parsed) \<Rightarrow> timestamp \<Rightarrow> string \<Rightarrow> time_entry list \<Rightarrow> cell \<Rightarrow> cell
     \<Rightarrow> int option \<Rightarrow> int option \<Rightarrow> py_error + rat" where
  "calculate_client_hours parse now client_name time_entries_df limit_type contract_start_date
       year month =
     (if time_entries_df = [] then Inr 0
      else
        let client_entries = filter (\<lambda>e. e_client_name e = client_name) time_entries_df in
        if client_entries = [] then Inr 0
        else
          let limit_type =
                (if isna limit_type \<or> limit_type = Str ''None'' \<or> limit_type = Str ''''
                 then Str ''Monthly'' else limit_type)
          in
          if limit_type = Str ''Monthly'' then
            (let (year, month) =
                   (if year = None \<or> month = None
                    then (d_year (ts_date now), d_month (ts_date now))
                    else (the year, the month))
             in case datetime year month 1 of
                  Inl e \<Rightarrow> Inl e
                | Inr month_start \<Rightarrow>
                    (case monthrange_days year month of
                       Inl e \<Rightarrow> Inl e
                     | Inr last_day \<Rightarrow>
                         (case datetime year month last_day of
                            Inl e \<Rightarrow> Inl e
                          | Inr month_end \<Rightarrow>
                              Inr (hours_sum
                                     (filter (\<lambda>e. ts_le month_start (e_date e)
                                                    \<and> ts_le (e_date e) month_end)
                                        client_entries)))))
          else if limit_type = Str ''Contract Total'' then
            (if truthy contract_start_date then
               (case to_datetime parse contract_start_date of
                  Raises \<Rightarrow> Inr (hours_sum client_entries)
                | NaT \<Rightarrow> Inr (hours_sum (filter (\<lambda>e. False) client_entries))
                | Parsed start_date \<Rightarrow>
                    Inr (hours_sum (filter (\<lambda>e. ts_le start_date (e_date e)) client_entries)))
             else Inr (hours_sum client_entries))
          else
            (let (year, month) =
                   (if year = None \<or> month = None
                    then (d_year (ts_date now), d_month (ts_date now))
                    else (the year, the month))
             in case datetime year month 1 of
                  Inl e \<Rightarrow> Inl e
                | Inr month_start \<Rightarrow>
                    (case monthrange_days year month of
                       Inl e \<Rightarrow> Inl e
                     | Inr last_day \<Rightarrow>
                         (case datetime year month last_day of
                            Inl e \<Rightarrow> Inl e
                          | Inr month_end \<Rightarrow>
                              Inr (hours_sum
                                     (filter (\<lambda>e. ts_le month_start (e_date e)
                                                    \<and> ts_le (e_date e) month_end)
                                        client_entries))))))"

subsection \<open>\<open>is_work_day\<close> and \<open>get_work_days_in_month\<close>\<close>

definition is_work_day :: "date \<Rightarrow> string list \<Rightarrow> non_work_day list \<Rightarrow> bool" where
  "is_work_day date work_days_list non_work_days_df =
     (if day_name (weekday date) \<notin> set work_days_list then False
      else if non_work_days_df \<noteq> [] \<and> date \<in> set (map n_date non_work_days_df) then False
      else True)"

text \<open>
  The loop \<open>for day in range(1, days_in_month + 1)\<close> of \<open>get_work_days_in_month\<close>, over
  the days still to visit, with the running count.
\<close>

fun work_days_loop ::
  "int \<Rightarrow> int \<Rightarrow> string list \<Rightarrow> non_work_day list \<Rightarrow> int list \<Rightarrow> nat \<Rightarrow> py_error + nat" where
  "work_days_loop year month work_day_names non_work_days_df [] work_days_count =
     Inr work_days_count"
| "work_days_loop year month work_day_names non_work_days_df (day # days) work_days_count =
     (case datetime year month day of
        Inl e \<Rightarrow> Inl e
      | Inr dt \<Rightarrow>
          work_days_loop year month work_day_names non_work_days_df days
            (if is_work_day (ts_date dt) work_day_names non_work_days_df
             then work_days_count + 1 else work_days_count))"

definition get_work_days_in_month ::
  "int \<Rightarrow> int \<Rightarrow> string list \<Rightarrow> non_work_day list \<Rightarrow> py_error + nat" where
  "get_work_days_in_month year month work_days non_work_days_df =
     (case monthrange_days year month of
        Inl e \<Rightarrow> Inl e
      | Inr days_in_month \<Rightarrow>
          work_days_loop year month work_days non_work_days_df [1..days_in_month] 0)"

subsection \<open>\<open>calculate_monthly_stats\<close>\<close>

text \<open>
  \<open>left.merge(right[['client_name', 'hourly_rate']], on='client_name', how='inner')\<close>:
  one row for every pair of a left row and a right row with the same client name.
\<close>

definition merge_inner :: "time_entry list \<Rightarrow> client list \<Rightarrow> (time_entry \<times> client) list" where
  "merge_inner left right =
     concat (map (\<lambda>e. map (\<lambda>c. (e, c)) (filter (\<lambda>c. c_client_name c = e_client_name e) right))
               left)"

text \<open>The block "Calculate hourly billables": the pair \<open>(hourly_total, total_hours)\<close>.\<close>

definition hourly_billables :: "time_entry list \<Rightarrow> client list \<Rightarrow> rat \<times> rat" where
  "hourly_billables monthly_entries clients_df =
     (if monthly_entries \<noteq> [] \<and> clients_df \<noteq> [] then
        let hourly_clients = filter (\<lambda>c. c_billing_type c = ''Hourly'') clients_df in
        if hourly_clients \<noteq> [] then
          let merged = merge_inner monthly_entries hourly_clients in
          if merged \<noteq> [] then
            (sum_list (map (\<lambda>(e, c). e_hours e * c_hourly_rate c) merged),
             sum_list (map (\<lambda>(e, c). e_hours e) merged))
          else (0, 0)
        else (0, 0)
      else (0, 0))"

text \<open>The block "Add retainer/flat fee income".\<close>

definition retainer_total_of :: "invoice list \<Rightarrow> rat" where
  "retainer_total_of monthly_invoices =
     (if monthly_invoices \<noteq> [] then sum_list (map i_amount monthly_invoices) else 0)"

text \<open>\<open>Series.mean()\<close> of a column with at least one row.\<close>

definition mean :: "rat list \<Rightarrow> rat" where
  "mean xs = sum_list xs / of_nat (length xs)"

text \<open>The block "Calculate average hourly rate from hourly clients".\<close>

definition avg_hourly_rate_of :: "client list \<Rightarrow> rat" where
  "avg_hourly_rate_of clients_df =
     (if clients_df \<noteq> [] then
        let hourly_clients = filter (\<lambda>c. c_billing_type c = ''Hourly'') clients_df in
        if hourly_clients \<noteq> [] then mean (map c_hourly_rate hourly_clients) else 0
      else 0)"

text \<open>
  The loop "Calculate days worked so far", over the days still to visit, with the running
  count; \<open>today\<close> is \<open>datetime.now().date()\<close>.
\<close>

fun days_worked_loop ::
  "int \<Rightarrow> int \<Rightarrow> string list \<Rightarrow> non_work_day list \<Rightarrow> date \<Rightarrow> int list \<Rightarrow> nat
     \<Rightarrow> py_error + nat" where
  "days_worked_loop year month work_days_list non_work_days_df today [] days_worked =
     Inr days_worked"
| "days_worked_loop year month work_days_list non_work_days_df today (day # days) days_worked =
     (case datetime year month day of
        Inl e \<Rightarrow> Inl e
      | Inr dt \<Rightarrow>
          days_worked_loop year month work_days_list non_work_days_df today days
            (if is_work_day (ts_date dt) work_days_list non_work_days_df
                \<and> date_le (ts_date dt) today
             then days_worked + 1 else days_worked))"

text \<open>The dictionary that \<open>calculate_monthly_stats\<close> returns.\<close>

record stats =
  total_income :: rat
  hourly_income :: rat
  retainer_income :: rat
  monthly_target :: rat
  target_so_far :: rat
  daily_target :: rat
  daily_hours_target :: rat
  total_work_days :: nat
  days_worked :: nat
  total_hours :: rat
  avg_hourly_rate :: rat

definition calculate_monthly_stats ::
  "date \<Rightarrow> int \<Rightarrow> int \<Rightarrow> client list \<Rightarrow> time_entry list \<Rightarrow> invoice list \<Rightarrow> settings
     \<Rightarrow> non_work_day list \<Rightarrow> py_error + stats" where
  "calculate_monthly_stats today year month clients_df time_entries_df invoices_df settings
       non_work_days_df =
     (case datetime year month 1 of
        Inl e \<Rightarrow> Inl e
      | Inr month_start \<Rightarrow>
     (case monthrange_days year month of
        Inl e \<Rightarrow> Inl e
      | Inr last_day \<Rightarrow>
     (case datetime year month last_day of
        Inl e \<Rightarrow> Inl e
      | Inr month_end \<Rightarrow>
     (let monthly_entries =
            (if time_entries_df \<noteq> []
             then filter (\<lambda>e. ts_le month_start (e_date e) \<and> ts_le (e_date e) month_end)
                    time_entries_df
             else []);
          monthly_invoices =
            (if invoices_df \<noteq> []
             then filter (\<lambda>i. ts_le month_start (i_date i) \<and> ts_le (i_date i) month_end)
                    invoices_df
             else []);
          (hourly_total, total_hours) = hourly_billables monthly_entries clients_df;
          retainer_total = retainer_total_of monthly_invoices;
          total_income = hourly_total + retainer_total;
          work_days_list = str_split CHR '','' (s_work_days settings)
      in
     (case get_work_days_in_month year month work_days_list non_work_days_df of
        Inl e \<Rightarrow> Inl e
      | Inr work_days_count \<Rightarrow>
     (case monthrange_days year month of
        Inl e \<Rightarrow> Inl e
      | Inr last_day \<Rightarrow>
     (case days_worked_loop year month work_days_list non_work_days_df today
             [1..min (d_day today + 1) (last_day + 1) - 1] 0 of
        Inl e \<Rightarrow> Inl e
      | Inr days_count \<Rightarrow>
     (case (if work_days_count > 0
            then py_div (s_monthly_target settings) (of_nat work_days_count)
            else Inr 0) of
        Inl e \<Rightarrow> Inl e
      | Inr target_per_day \<Rightarrow>
     (let total_work_days = work_days_count;
          days_worked = days_count;
          daily_target = target_per_day;
          target_so_far = daily_target * of_nat days_worked;
          avg_hourly_rate = avg_hourly_rate_of clients_df
      in
     (case (if avg_hourly_rate > 0 then py_div daily_target avg_hourly_rate else Inr 0) of
        Inl e \<Rightarrow> Inl e
      | Inr hours_per_day \<Rightarrow>
          Inr \<lparr>total_income = total_income,
               hourly_income = hourly_total,
               retainer_income = retainer_total,
               monthly_target = s_monthly_target settings,
               target_so_far = target_so_far,
               daily_target = daily_target,
               daily_hours_target = hours_per_day,
               total_work_days = total_work_days,
               days_worked = days_worked,
               total_hours = total_hours,
               avg_hourly_rate = avg_hourly_rate\<rparr>))))))))))"

subsection \<open>The chart loop of \<open>show_dashboard\<close>\<close>





subsection \<open>Notions used in the statements\<close>

text \<open>The years and months that \<open>datetime\<close> accepts.\<close>

definition valid_month :: "int \<Rightarrow> int \<Rightarrow> bool" where
  "valid_month year month = (1 \<le> year \<and> year \<le> 9999 \<and> 1 \<le> month \<and> month \<le> 12)"

text \<open>The timestamp that \<open>datetime(y, m, d)\<close> returns for a date that exists.\<close>

definition midnight :: "int \<Rightarrow> int \<Rightarrow> int \<Rightarrow> timestamp" where
  "midnight y m d = \<lparr>ts_date = mk_date y m d, ts_time = 0\<rparr>"

text \<open>
  The window of \<open>calculate_monthly_stats\<close> and of the monthly limit: from
  \<open>datetime(y, m, 1)\<close> to \<open>datetime(y, m, last day)\<close>, both included.
\<close>

definition in_month :: "int \<Rightarrow> int \<Rightarrow> timestamp \<Rightarrow> bool" where
  "in_month y m t = (ts_le (midnight y m 1) t \<and> ts_le t (midnight y m (monthlen y m)))"

text \<open>The rows of the roster with billing type \<open>Hourly\<close>.\<close>

definition hourly_rows :: "client list \<Rightarrow> client list" where
  "hourly_rows clients_df = filter (\<lambda>c. c_billing_type c = ''Hourly'') clients_df"

text \<open>What the inner join with the hourly clients makes of one time entry.\<close>

definition entry_income :: "client list \<Rightarrow> time_entry \<Rightarrow> rat" where
  "entry_income clients_df e =
     sum_list (map (\<lambda>c. e_hours e * c_hourly_rate c)
                 (filter (\<lambda>c. c_client_name c = e_client_name e) (hourly_rows clients_df)))"

text \<open>
  The values that a loop appends: each the result of one pass on the value before, from a
  start value, over the items visited.
\<close>

fun series :: "('a \<Rightarrow> rat \<Rightarrow> rat) \<Rightarrow> 'a list \<Rightarrow> rat \<Rightarrow> rat list" where
  "series f [] a = []"
| "series f (d # ds) a = f d a # series f ds (f d a)"



subsection \<open>Example data\<close>

text \<open>
  Settings with a monthly target of 8000 and the work days Monday to Friday, an hourly
  client at 100 per hour, and a time entry of that client at a date, a time of day (in
  seconds after midnight) and a number of hours.
\<close>

definition example_settings :: settings where
  "example_settings =
     \<lparr>s_monthly_target = 8000, s_work_days = ''Monday,Tuesday,Wednesday,Thursday,Friday''\<rparr>"

definition acme :: client where
  "acme = \<lparr>c_client_name = ''Acme'', c_hourly_rate = 100, c_billing_type = ''Hourly'',
           c_active = True, c_has_hour_limit = True, c_limit_type = Str ''Contract Total'',
           c_hour_limit = 40, c_contract_start_date = NaN\<rparr>"

definition acme_entry :: "int \<Rightarrow> int \<Rightarrow> int \<Rightarrow> nat \<Rightarrow> rat \<Rightarrow> time_entry" where
  "acme_entry y m d t h =
     \<lparr>e_date = \<lparr>ts_date = mk_date y m d, ts_time = t\<rparr>, e_client_name = ''Acme'',
      e_hours = h, e_notes = []\<rparr>"

section \<open>Properties\<close>

lemma monthlen_bounds: "28 \<le> monthlen y m \<and> monthlen y m \<le> 31"
  by (simp add: monthlen_def)

lemma datetime_valid:
  "valid_month y m \<Longrightarrow> 1 \<le> d \<Longrightarrow> d \<le> monthlen y m \<Longrightarrow> datetime y m d = Inr (midnight y m d)"
  by (simp add: datetime_def valid_month_def midnight_def)

lemma datetime_first: "valid_month y m \<Longrightarrow> datetime y m 1 = Inr (midnight y m 1)"
  using monthlen_bounds [of y m] by (simp add: datetime_valid)

lemma datetime_last:
  "valid_month y m \<Longrightarrow> datetime y m (monthlen y m) = Inr (midnight y m (monthlen y m))"
  using monthlen_bounds [of y m] by (simp add: datetime_valid)

lemma monthrange_days_valid: "valid_month y m \<Longrightarrow> monthrange_days y m = Inr (monthlen y m)"
  by (simp add: monthrange_days_def valid_month_def)

lemma datetime_invalid: "\<not> valid_month y m \<Longrightarrow> datetime y m d = Inl ValueError"
  by (auto simp add: datetime_def valid_month_def)

lemma ts_date_midnight [simp]: "ts_date (midnight y m d) = mk_date y m d"
  by (simp add: midnight_def)

lemma work_days_loop_eq:
  "valid_month y m \<Longrightarrow> \<forall>d \<in> set ds. 1 \<le> d \<and> d \<le> monthlen y m \<Longrightarrow>
   work_days_loop y m wd nwd ds acc =
     Inr (acc + length (filter (\<lambda>d. is_work_day (mk_date y m d) wd nwd) ds))"
  by (induction ds arbitrary: acc) (simp_all add: datetime_valid)

lemma days_worked_loop_eq:
  "valid_month y m \<Longrightarrow> \<forall>d \<in> set ds. 1 \<le> d \<and> d \<le> monthlen y m \<Longrightarrow>
   days_worked_loop y m wd nwd today ds acc =
     Inr (acc + length (filter (\<lambda>d. is_work_day (mk_date y m d) wd nwd
                                        \<and> date_le (mk_date y m d) today) ds))"
  by (induction ds arbitrary: acc) (simp_all add: datetime_valid)

lemma get_work_days_in_month_eq:
  "valid_month y m \<Longrightarrow>
   get_work_days_in_month y m wd nwd =
     Inr (length (filter (\<lambda>d. is_work_day (mk_date y m d) wd nwd) [1..monthlen y m]))"
  by (simp add: get_work_days_in_month_def monthrange_days_valid work_days_loop_eq)

lemma length_filter_split:
  "length (filter P xs) =
     length (filter (\<lambda>x. P x \<and> Q x) xs) + length (filter (\<lambda>x. P x \<and> \<not> Q x) xs)"
  by (induction xs) auto

lemma is_work_day_iff0:
  "is_work_day date wd nwd
     = (day_name (weekday date) \<in> set wd \<and> date \<notin> set (map n_date nwd))"
  by (auto simp add: is_work_day_def)

text \<open>
  Claim C5. For a valid year and month, \<open>get_work_days_in_month\<close> returns the number of
  days of the month whose weekday name is in the work-day list, minus those of them that
  are also in the non-work-day list; this is at most the number of days of the month,
  which is 28 to 31 with February following the leap years.
\<close>

theorem get_work_days_in_month_count:
  assumes "valid_month year month"
  shows "get_work_days_in_month year month work_days non_work_days_df =
           Inr (length (filter (\<lambda>d. day_name (weekday (mk_date year month d)) \<in> set work_days)
                          [1..monthlen year month])
                - length (filter (\<lambda>d. day_name (weekday (mk_date year month d)) \<in> set work_days
                                       \<and> mk_date year month d \<in> set (map n_date non_work_days_df))
                            [1..monthlen year month]))
         \<and> length (filter (\<lambda>d. day_name (weekday (mk_date year month d)) \<in> set work_days)
                          [1..monthlen year month])
                - length (filter (\<lambda>d. day_name (weekday (mk_date year month d)) \<in> set work_days
                                       \<and> mk_date year month d \<in> set (map n_date non_work_days_df))
                            [1..monthlen year month])
             \<le> nat (monthlen year month)
         \<and> monthlen year month =
             (if month = 2 then (if isleap year then 29 else 28)
              else if month \<in> {4, 6, 9, 11} then 30 else 31)"
proof -
  let ?P = "\<lambda>d. day_name (weekday (mk_date year month d)) \<in> set work_days"
  let ?Q = "\<lambda>d. mk_date year month d \<in> set (map n_date non_work_days_df)"
  let ?ds = "[1..monthlen year month]"
  have split: "length (filter ?P ?ds) =
      length (filter (\<lambda>d. ?P d \<and> ?Q d) ?ds) + length (filter (\<lambda>d. ?P d \<and> \<not> ?Q d) ?ds)"
    by (rule length_filter_split)
  have "(\<lambda>d. is_work_day (mk_date year month d) work_days non_work_days_df)
          = (\<lambda>d. ?P d \<and> \<not> ?Q d)"
    by (simp add: is_work_day_iff0 fun_eq_iff)
  then have count: "get_work_days_in_month year month work_days non_work_days_df =
      Inr (length (filter (\<lambda>d. ?P d \<and> \<not> ?Q d) ?ds))"
    using assms by (simp add: get_work_days_in_month_eq)
  have le: "length (filter ?P ?ds) \<le> nat (monthlen year month)"
    using length_filter_le [of ?P ?ds] by simp
  have ml: "monthlen year month =
             (if month = 2 then (if isleap year then 29 else 28)
              else if month \<in> {4, 6, 9, 11} then 30 else 31)"
    by (simp add: monthlen_def)
  show ?thesis using split count le ml by simp
qed

theorem get_work_days_in_month_count_witness:
  "valid_month 2024 2
   \<and> get_work_days_in_month 2024 2
        [''Monday'', ''Tuesday'', ''Wednesday'', ''Thursday'', ''Friday'']
        [\<lparr>n_date = mk_date 2024 2 19, n_reason = ''Holiday''\<rparr>] = Inr 20
   \<and> monthlen 2024 2 = 29"
proof -
  have v: "valid_month 2024 2" by (simp add: valid_month_def)
  have g: "get_work_days_in_month 2024 2
        [''Monday'', ''Tuesday'', ''Wednesday'', ''Thursday'', ''Friday'']
        [\<lparr>n_date = mk_date 2024 2 19, n_reason = ''Holiday''\<rparr>] = Inr 20"
    by code_simp
  have m: "monthlen 2024 2 = 29" by code_simp
  from get_work_days_in_month_count
         [OF v, of "[''Monday'', ''Tuesday'', ''Wednesday'', ''Thursday'', ''Friday'']"
            "[\<lparr>n_date = mk_date 2024 2 19, n_reason = ''Holiday''\<rparr>]"]
       v g m
  show ?thesis by blast
qed

lemma merge_inner_Nil [simp]: "merge_inner [] cs = []"
  by (simp add: merge_inner_def)

lemma merge_inner_Nil2 [simp]: "merge_inner es [] = []"
  by (induction es) (simp_all add: merge_inner_def)

lemma merge_inner_Cons:
  "merge_inner (e # es) cs =
     map (\<lambda>c. (e, c)) (filter (\<lambda>c. c_client_name c = e_client_name e) cs) @ merge_inner es cs"
  by (simp add: merge_inner_def)

lemma hourly_billables_eq:
  "hourly_billables es cs =
     (sum_list (map (\<lambda>(e, c). e_hours e * c_hourly_rate c) (merge_inner es (hourly_rows cs))),
      sum_list (map (\<lambda>(e, c). e_hours e) (merge_inner es (hourly_rows cs))))"
  by (cases "es = []"; cases "cs = []") (simp_all add: hourly_billables_def hourly_rows_def Let_def)

lemma retainer_total_of_eq: "retainer_total_of is = sum_list (map i_amount is)"
  by (simp add: retainer_total_of_def)

lemma days_range: "\<forall>d \<in> set [1..min (a + 1) (monthlen y m + 1) - 1]. 1 \<le> d \<and> d \<le> monthlen y m"
  by auto

lemma guarded_div_target:
  "(if (0::nat) < n then py_div a (of_nat n) else Inr 0) = Inr (if 0 < n then a / of_nat n else 0)"
  by (simp add: py_div_def)

lemma guarded_div_hours:
  "(if (0::rat) < r then py_div a r else Inr 0) = Inr (if 0 < r then a / r else 0)"
  by (simp add: py_div_def)

lemma calculate_monthly_stats_eq:
  assumes "valid_month y m"
  shows "calculate_monthly_stats today y m cs es is st nwd =
    Inr \<lparr>total_income =
           fst (hourly_billables (filter (\<lambda>e. in_month y m (e_date e)) es) cs)
             + sum_list (map i_amount (filter (\<lambda>i. in_month y m (i_date i)) is)),
         hourly_income = fst (hourly_billables (filter (\<lambda>e. in_month y m (e_date e)) es) cs),
         retainer_income = sum_list (map i_amount (filter (\<lambda>i. in_month y m (i_date i)) is)),
         monthly_target = s_monthly_target st,
         target_so_far =
           (if 0 < length (filter (\<lambda>d. is_work_day (mk_date y m d)
                                      (str_split CHR '','' (s_work_days st)) nwd) [1..monthlen y m])
            then s_monthly_target st
                   / of_nat (length (filter (\<lambda>d. is_work_day (mk_date y m d)
                                      (str_split CHR '','' (s_work_days st)) nwd) [1..monthlen y m]))
            else 0)
           * of_nat (length (filter (\<lambda>d. is_work_day (mk_date y m d)
                                          (str_split CHR '','' (s_work_days st)) nwd
                                        \<and> date_le (mk_date y m d) today)
                               [1..min (d_day today + 1) (monthlen y m + 1) - 1])),
         daily_target =
           (if 0 < length (filter (\<lambda>d. is_work_day (mk_date y m d)
                                      (str_split CHR '','' (s_work_days st)) nwd) [1..monthlen y m])
            then s_monthly_target st
                   / of_nat (length (filter (\<lambda>d. is_work_day (mk_date y m d)
                                      (str_split CHR '','' (s_work_days st)) nwd) [1..monthlen y m]))
            else 0),
         daily_hours_target =
           (if 0 < avg_hourly_rate_of cs
            then (if 0 < length (filter (\<lambda>d. is_work_day (mk_date y m d)
                                      (str_split CHR '','' (s_work_days st)) nwd) [1..monthlen y m])
                  then s_monthly_target st
                   / of_nat (length (filter (\<lambda>d. is_work_day (mk_date y m d)
                                      (str_split CHR '','' (s_work_days st)) nwd) [1..monthlen y m]))
                  else 0) / avg_hourly_rate_of cs
            else 0),
         total_work_days =
           length (filter (\<lambda>d. is_work_day (mk_date y m d)
                                      (str_split CHR '','' (s_work_days st)) nwd) [1..monthlen y m]),
         days_worked =
           length (filter (\<lambda>d. is_work_day (mk_date y m d)
                                          (str_split CHR '','' (s_work_days st)) nwd
                                        \<and> date_le (mk_date y m d) today)
                               [1..min (d_day today + 1) (monthlen y m + 1) - 1]),
         total_hours = snd (hourly_billables (filter (\<lambda>e. in_month y m (e_date e)) es) cs),
         avg_hourly_rate = avg_hourly_rate_of cs\<rparr>"
proof -
  have me: "(if es \<noteq> [] then filter (\<lambda>e. ts_le (midnight y m 1) (e_date e)
                 \<and> ts_le (e_date e) (midnight y m (monthlen y m))) es else [])
            = filter (\<lambda>e. in_month y m (e_date e)) es"
    by (simp add: in_month_def)
  have mi: "(if is \<noteq> [] then filter (\<lambda>i. ts_le (midnight y m 1) (i_date i)
                 \<and> ts_le (i_date i) (midnight y m (monthlen y m))) is else [])
            = filter (\<lambda>i. in_month y m (i_date i)) is"
    by (simp add: in_month_def)
  show ?thesis
    unfolding calculate_monthly_stats_def
    by (auto simp add: datetime_first [OF assms] datetime_last [OF assms]
        monthrange_days_valid [OF assms] me mi Let_def
        get_work_days_in_month_eq [OF assms]
        days_worked_loop_eq [OF assms days_range]
        py_div_def retainer_total_of_eq
        split: prod.splits)
qed

lemma merge_inner_sum:
  "sum_list (map (\<lambda>(e, c). g e c) (merge_inner es hc)) =
     sum_list (map (\<lambda>e. sum_list (map (g e) (filter (\<lambda>c. c_client_name c = e_client_name e) hc))) es)"
  by (induction es) (simp_all add: merge_inner_Cons comp_def)

lemma hourly_total_eq:
  "fst (hourly_billables es cs) = sum_list (map (entry_income cs) es)"
  by (simp add: hourly_billables_eq merge_inner_sum entry_income_def [abs_def])

lemma total_hours_eq:
  "snd (hourly_billables es cs) =
     sum_list (map (\<lambda>e. e_hours e * of_nat (length (filter (\<lambda>c. c_client_name c = e_client_name e)
                                                     (hourly_rows cs)))) es)"
proof -
  have "\<And>(h::rat) (xs::client list). sum_list (map (\<lambda>c. h) xs) = h * of_nat (length xs)"
    by (simp add: sum_list_triv mult.commute)
  then show ?thesis
    by (simp add: hourly_billables_eq merge_inner_sum)
qed

lemma length_series [simp]: "length (series f ds a) = length ds"
  by (induction ds arbitrary: a) simp_all

lemma series_Nil_iff [simp]: "series f ds a = [] \<longleftrightarrow> ds = []"
  by (cases ds) simp_all
















lemma monthly_window_eq:
  assumes "valid_month y m"
  shows "(case datetime y m 1 of
            Inl e \<Rightarrow> Inl e
          | Inr month_start \<Rightarrow>
              (case monthrange_days y m of
                 Inl e \<Rightarrow> Inl e
               | Inr last_day \<Rightarrow>
                   (case datetime y m last_day of
                      Inl e \<Rightarrow> Inl e
                    | Inr month_end \<Rightarrow>
                        Inr (hours_sum
                               (filter (\<lambda>e. ts_le month_start (e_date e)
                                              \<and> ts_le (e_date e) month_end)
                                  ces)))))
         = (Inr (hours_sum (filter (\<lambda>e. in_month y m (e_date e)) ces)) :: py_error + rat)"
  by (simp add: datetime_first [OF assms] datetime_last [OF assms]
      monthrange_days_valid [OF assms] in_month_def)

lemma filter_client_window:
  "filter (\<lambda>e. in_month y m (e_date e)) (filter (\<lambda>e. e_client_name e = n) es)
     = filter (\<lambda>e. e_client_name e = n \<and> in_month y m (e_date e)) es"
  by (induction es) auto

lemma calculate_client_hours_monthly:
  assumes "valid_month y m"
  shows "calculate_client_hours parse now n es (Str ''Monthly'') csd (Some y) (Some m) =
           Inr (hours_sum (filter (\<lambda>e. e_client_name e = n \<and> in_month y m (e_date e)) es))"
proof (cases "filter (\<lambda>e. e_client_name e = n) es = []")
  case True
  then have "filter (\<lambda>e. e_client_name e = n \<and> in_month y m (e_date e)) es = []"
    by (auto simp add: filter_empty_conv)
  with True show ?thesis
    by (simp add: calculate_client_hours_def hours_sum_def)
next
  case False
  then have ne: "es \<noteq> []" by auto
  show ?thesis
    unfolding calculate_client_hours_def
    by (simp add: False ne Let_def monthly_window_eq [OF assms] filter_client_window)
qed


text \<open>
  Claim C7. Any limit type other than \<open>Contract Total\<close> (a missing value, the empty
  string, the string \<open>None\<close>, or any unrecognised string) gives the result of the limit
  type \<open>Monthly\<close> on the same arguments, an error included.
\<close>

theorem limit_type_falls_back_to_monthly:
  assumes "limit_type \<noteq> Str ''Contract Total''"
  shows "calculate_client_hours parse now client_name time_entries_df limit_type
             contract_start_date year month
         = calculate_client_hours parse now client_name time_entries_df (Str ''Monthly'')
             contract_start_date year month"
  using assms unfolding calculate_client_hours_def
  by (simp add: Let_def)

lemma contract_total_cases:
  "calculate_client_hours parse now n es (Str ''Contract Total'') csd year month =
     Inr (case csd of
            PyNone \<Rightarrow> hours_sum (filter (\<lambda>e. e_client_name e = n) es)
          | NaN \<Rightarrow> 0
          | Str s \<Rightarrow>
              (if s = [] then hours_sum (filter (\<lambda>e. e_client_name e = n) es)
               else (case parse s of
                       Raises \<Rightarrow> hours_sum (filter (\<lambda>e. e_client_name e = n) es)
                     | NaT \<Rightarrow> 0
                     | Parsed t \<Rightarrow>
                         hours_sum (filter (\<lambda>e. e_client_name e = n \<and> ts_le t (e_date e)) es))))"
proof -
  have f: "\<And>t. filter (\<lambda>e. ts_le t (e_date e)) (filter (\<lambda>e. e_client_name e = n) es)
        = filter (\<lambda>e. e_client_name e = n \<and> ts_le t (e_date e)) es"
    by (induction es) auto
  have e: "filter (\<lambda>e. e_client_name e = n) es = [] \<Longrightarrow>
        (\<And>t. filter (\<lambda>e. e_client_name e = n \<and> ts_le t (e_date e)) es = [])"
    by (auto simp add: filter_empty_conv)
  show ?thesis
  proof (cases "filter (\<lambda>e. e_client_name e = n) es = []")
    case True
    with e [OF True] show ?thesis
      by (simp add: calculate_client_hours_def hours_sum_def
          split: cell.splits parsed.splits)
  next
    case False
    then have "es \<noteq> []" by auto
    with False show ?thesis
      unfolding calculate_client_hours_def
      by (simp add: Let_def f hours_sum_def split: cell.splits parsed.splits)
  qed
qed

text \<open>
  Claim C9. \<open>calculate_monthly_stats\<close> never raises \<open>ZeroDivisionError\<close>; it returns a
  result for every valid year and month; and in every result \<open>daily_target\<close> is
  \<open>monthly_target / total_work_days\<close> when there is a work day and 0 when there is none,
  and \<open>daily_hours_target\<close> is \<open>daily_target / avg_hourly_rate\<close> when the average rate
  is positive and 0 otherwise.
\<close>

theorem stats_no_division_by_zero:
  "calculate_monthly_stats today year month clients_df time_entries_df invoices_df settings
       non_work_days_df \<noteq> Inl ZeroDivisionError
   \<and> (valid_month year month \<longrightarrow>
        (\<exists>s. calculate_monthly_stats today year month clients_df time_entries_df invoices_df
                settings non_work_days_df = Inr s))
   \<and> (\<forall>s. calculate_monthly_stats today year month clients_df time_entries_df invoices_df
              settings non_work_days_df = Inr s \<longrightarrow>
            daily_target s =
              (if total_work_days s > 0
               then s_monthly_target settings / of_nat (total_work_days s) else 0)
            \<and> (total_work_days s = 0 \<longrightarrow> daily_target s = 0)
            \<and> daily_hours_target s =
              (if avg_hourly_rate s > 0 then daily_target s / avg_hourly_rate s else 0))"
proof (cases "valid_month year month")
  case True
  show ?thesis
    unfolding calculate_monthly_stats_eq [OF True] by auto
next
  case False
  then have "calculate_monthly_stats today year month clients_df time_entries_df invoices_df
      settings non_work_days_df = Inl ValueError"
    by (simp add: calculate_monthly_stats_def datetime_invalid)
  with False show ?thesis by simp
qed

lemma valid_2024_3: "valid_month 2024 3"
  by (simp add: valid_month_def)




lemma example_monthly_hours:
  "calculate_client_hours parse now ''Acme''
     [acme_entry 2024 3 1 0 5, acme_entry 2024 3 15 0 3, acme_entry 2024 4 2 0 7]
     (Str ''Monthly'') csd (Some 2024) (Some 3) = Inr 8"
  by (simp add: calculate_client_hours_monthly [OF valid_2024_3] hours_sum_def in_month_def
      ts_le_def date_le_def midnight_def acme_entry_def mk_date_def monthlen_def)

theorem limit_type_falls_back_to_monthly_witness:
  "calculate_client_hours (\<lambda>s. Raises) (midnight 2024 3 5) ''Acme''
     [acme_entry 2024 3 1 0 5, acme_entry 2024 3 15 0 3, acme_entry 2024 4 2 0 7]
     NaN PyNone (Some 2024) (Some 3) = Inr 8
   \<and> calculate_client_hours (\<lambda>s. Raises) (midnight 2024 3 5) ''Acme''
     [acme_entry 2024 3 1 0 5, acme_entry 2024 3 15 0 3, acme_entry 2024 4 2 0 7]
     PyNone PyNone (Some 2024) (Some 3) = Inr 8
   \<and> calculate_client_hours (\<lambda>s. Raises) (midnight 2024 3 5) ''Acme''
     [acme_entry 2024 3 1 0 5, acme_entry 2024 3 15 0 3, acme_entry 2024 4 2 0 7]
     (Str '''') PyNone (Some 2024) (Some 3) = Inr 8
   \<and> calculate_client_hours (\<lambda>s. Raises) (midnight 2024 3 5) ''Acme''
     [acme_entry 2024 3 1 0 5, acme_entry 2024 3 15 0 3, acme_entry 2024 4 2 0 7]
     (Str ''None'') PyNone (Some 2024) (Some 3) = Inr 8
   \<and> calculate_client_hours (\<lambda>s. Raises) (midnight 2024 3 5) ''Acme''
     [acme_entry 2024 3 1 0 5, acme_entry 2024 3 15 0 3, acme_entry 2024 4 2 0 7]
     (Str ''Weekly'') PyNone (Some 2024) (Some 3) = Inr 8"
proof -
  have n1: "NaN \<noteq> Str ''Contract Total''" by simp
  have n2: "PyNone \<noteq> Str ''Contract Total''" by simp
  have n3: "Str '''' \<noteq> Str ''Contract Total''" by simp
  have n4: "Str ''None'' \<noteq> Str ''Contract Total''" by simp
  have n5: "Str ''Weekly'' \<noteq> Str ''Contract Total''" by simp
  show ?thesis
    by (simp only: limit_type_falls_back_to_monthly [OF n1]
        limit_type_falls_back_to_monthly [OF n2] limit_type_falls_back_to_monthly [OF n3]
        limit_type_falls_back_to_monthly [OF n4] limit_type_falls_back_to_monthly [OF n5]
        example_monthly_hours simp_thms)
qed

theorem stats_no_division_by_zero_witness:
  "calculate_monthly_stats (mk_date 2024 3 5) 2024 3 [] [] []
       \<lparr>s_monthly_target = 8000, s_work_days = ''''\<rparr> [] \<noteq> Inl ZeroDivisionError
   \<and> map_sum id (\<lambda>s. (total_work_days s, daily_target s, avg_hourly_rate s, daily_hours_target s))
       (calculate_monthly_stats (mk_date 2024 3 5) 2024 3 [] [] []
          \<lparr>s_monthly_target = 8000, s_work_days = ''''\<rparr> [])
       = Inr (0, 0, 0, 0)
   \<and> map_sum id (\<lambda>s. (total_work_days s, daily_target s, avg_hourly_rate s, daily_hours_target s))
       (calculate_monthly_stats (mk_date 2024 3 5) 2024 3 [acme] [] [] example_settings [])
       = Inr (21, 8000 / 21, 100, 80 / 21)"
proof -
  from stats_no_division_by_zero [where today = "mk_date 2024 3 5" and year = 2024
      and month = 3 and clients_df = "[]" and time_entries_df = "[]" and invoices_df = "[]"
      and settings = "\<lparr>s_monthly_target = 8000, s_work_days = ''''\<rparr>"
      and non_work_days_df = "[]"]
  have a: "calculate_monthly_stats (mk_date 2024 3 5) 2024 3 [] [] []
       \<lparr>s_monthly_target = 8000, s_work_days = ''''\<rparr> [] \<noteq> Inl ZeroDivisionError"
    by (rule conjunct1)
  have b: "map_sum id (\<lambda>s. (total_work_days s, daily_target s, avg_hourly_rate s, daily_hours_target s))
       (calculate_monthly_stats (mk_date 2024 3 5) 2024 3 [] [] []
          \<lparr>s_monthly_target = 8000, s_work_days = ''''\<rparr> [])
       = Inr (0, 0, 0, 0)"
    by code_simp
  have c: "map_sum id (\<lambda>s. (total_work_days s, daily_target s, avg_hourly_rate s, daily_hours_target s))
       (calculate_monthly_stats (mk_date 2024 3 5) 2024 3 [acme] [] [] example_settings [])
       = Inr (21, 8000 / 21, 100, 80 / 21)"
    by code_simp
  from a b c show ?thesis by (intro conjI)
qed

text \<open>
  Claim C8. \<open>is_work_day\<close> is false when the weekday name of the date is not in the
  work-day list, false when the date is in the non-work-day list, and true otherwise.
\<close>

theorem is_work_day_cases:
  "(day_name (weekday date) \<notin> set work_days_list
      \<longrightarrow> \<not> is_work_day date work_days_list non_work_days_df)
   \<and> (date \<in> set (map n_date non_work_days_df)
      \<longrightarrow> \<not> is_work_day date work_days_list non_work_days_df)
   \<and> (day_name (weekday date) \<in> set work_days_list
        \<and> date \<notin> set (map n_date non_work_days_df)
      \<longrightarrow> is_work_day date work_days_list non_work_days_df)"
  by (auto simp add: is_work_day_def)

theorem is_work_day_cases_witness:
  "\<not> is_work_day (mk_date 2024 3 2)
        [''Monday'', ''Tuesday'', ''Wednesday'', ''Thursday'', ''Friday''] []
   \<and> \<not> is_work_day (mk_date 2024 3 1)
        [''Monday'', ''Tuesday'', ''Wednesday'', ''Thursday'', ''Friday'']
        [\<lparr>n_date = mk_date 2024 3 1, n_reason = ''Holiday''\<rparr>]
   \<and> is_work_day (mk_date 2024 3 1)
        [''Monday'', ''Tuesday'', ''Wednesday'', ''Thursday'', ''Friday''] []"
proof -
  have sat: "day_name (weekday (mk_date 2024 3 2))
               \<notin> set [''Monday'', ''Tuesday'', ''Wednesday'', ''Thursday'', ''Friday'']"
    by code_simp
  have fri: "day_name (weekday (mk_date 2024 3 1))
               \<in> set [''Monday'', ''Tuesday'', ''Wednesday'', ''Thursday'', ''Friday'']"
    by code_simp
  have listed: "mk_date 2024 3 1
                  \<in> set (map n_date [\<lparr>n_date = mk_date 2024 3 1, n_reason = ''Holiday''\<rparr>])"
    by simp
  have free: "mk_date 2024 3 1 \<notin> set (map n_date ([] :: non_work_day list))"
    by simp
  from is_work_day_cases [of "mk_date 2024 3 2"
         "[''Monday'', ''Tuesday'', ''Wednesday'', ''Thursday'', ''Friday'']" "[]"] sat
  have a: "\<not> is_work_day (mk_date 2024 3 2)
        [''Monday'', ''Tuesday'', ''Wednesday'', ''Thursday'', ''Friday''] []"
    by blast
  from is_work_day_cases [of "mk_date 2024 3 1"
         "[''Monday'', ''Tuesday'', ''Wednesday'', ''Thursday'', ''Friday'']"
         "[\<lparr>n_date = mk_date 2024 3 1, n_reason = ''Holiday''\<rparr>]"] listed
  have b: "\<not> is_work_day (mk_date 2024 3 1)
        [''Monday'', ''Tuesday'', ''Wednesday'', ''Thursday'', ''Friday'']
        [\<lparr>n_date = mk_date 2024 3 1, n_reason = ''Holiday''\<rparr>]"
    by blast
  from is_work_day_cases [of "mk_date 2024 3 1"
         "[''Monday'', ''Tuesday'', ''Wednesday'', ''Thursday'', ''Friday'']" "[]"] fri free
  have c: "is_work_day (mk_date 2024 3 1)
        [''Monday'', ''Tuesday'', ''Wednesday'', ''Thursday'', ''Friday''] []"
    by blast
  from a b c show ?thesis by (intro conjI)
qed

text \<open>
  Claim C1, at a month entirely in the past. With today 2024-03-05, work days Monday to
  Friday and no non-work day, \<open>calculate_monthly_stats\<close> for February 2024 returns
  \<open>days_worked = 3\<close> (1, 2 and 5 February: the loop stops at today's day of the month),
  while February 2024 has 21 work days.
\<close>

theorem days_worked_past_month:
  "map_sum id days_worked
     (calculate_monthly_stats (mk_date 2024 3 5) 2024 2 [] [] [] example_settings []) = Inr 3
   \<and> get_work_days_in_month 2024 2 (str_split CHR '','' (s_work_days example_settings)) []
       = Inr 21"
  by code_simp

text \<open>
  Claim C2, at a contract start date that is missing in the roster file. With the limit
  type \<open>Contract Total\<close> and the start date \<open>NaN\<close>, \<open>calculate_client_hours\<close> returns 0
  for a client with 20 logged hours; with the start date \<open>None\<close> it returns the 20 hours.
\<close>

theorem contract_total_missing_start_date:
  "calculate_client_hours parse now ''Acme''
       [acme_entry 2024 1 15 0 10, acme_entry 2024 2 10 0 10]
       (Str ''Contract Total'') NaN year month = Inr 0
   \<and> calculate_client_hours parse now ''Acme''
       [acme_entry 2024 1 15 0 10, acme_entry 2024 2 10 0 10]
       (Str ''Contract Total'') PyNone year month = Inr 20"
  by (simp add: contract_total_cases hours_sum_def acme_entry_def)

lemma stats_total_hours:
  assumes "valid_month y m"
  shows "map_sum id total_hours (calculate_monthly_stats today y m cs es is st nwd)
         = Inr (sum_list (map (\<lambda>e. e_hours e
                    * of_nat (length (filter (\<lambda>c. c_client_name c = e_client_name e)
                                        (hourly_rows cs))))
                  (filter (\<lambda>e. in_month y m (e_date e)) es)))"
  unfolding calculate_monthly_stats_eq [OF assms]
  by (simp add: total_hours_eq)

lemma stats_hourly_income:
  assumes "valid_month y m"
  shows "map_sum id hourly_income (calculate_monthly_stats today y m cs es is st nwd)
         = Inr (sum_list (map (entry_income cs) (filter (\<lambda>e. in_month y m (e_date e)) es)))"
  unfolding calculate_monthly_stats_eq [OF assms]
  by (simp add: hourly_total_eq)

lemma hourly_rows_same_name:
  "\<forall>c \<in> set cs. c_client_name c = n \<longrightarrow> c_billing_type c = ''Hourly'' \<Longrightarrow>
   filter (\<lambda>c. c_client_name c = n) (hourly_rows cs) = filter (\<lambda>c. c_client_name c = n) cs"
  by (induction cs) (auto simp add: hourly_rows_def)

lemma sum_list_scale: "sum_list (map (\<lambda>c. (h::rat) * f c) xs) = h * sum_list (map f xs)"
  by (induction xs) (simp_all add: algebra_simps)

lemma sum_list_same_rate:
  "\<forall>c \<in> set xs. f c = (r::rat) \<Longrightarrow> sum_list (map f xs) = of_nat (length xs) * r"
  by (induction xs) (simp_all add: algebra_simps)

text \<open>
  Claim C10. When the roster holds \<open>k\<close> rows with the same client name, all of them
  \<open>Hourly\<close>, one more time entry of that name inside the month adds \<open>k\<close> times its
  hours to \<open>total_hours\<close> and its hours times each of the \<open>k\<close> rates to
  \<open>hourly_income\<close> (\<open>k\<close> times hours times rate when the rows share one rate). With
  \<open>k = 1\<close> the entry counts once.
\<close>

theorem duplicate_roster_rows_multiply:
  assumes "valid_month year month"
    and "length (filter (\<lambda>c. c_client_name c = name) clients_df) = k"
    and "\<forall>c \<in> set clients_df. c_client_name c = name \<longrightarrow> c_billing_type c = ''Hourly''"
    and "e_client_name e = name"
    and "in_month year month (e_date e)"
  shows "\<exists>s s'.
      calculate_monthly_stats today year month clients_df time_entries_df invoices_df
        settings non_work_days_df = Inr s
    \<and> calculate_monthly_stats today year month clients_df (time_entries_df @ [e]) invoices_df
        settings non_work_days_df = Inr s'
    \<and> total_hours s' = total_hours s + of_nat k * e_hours e
    \<and> hourly_income s' =
        hourly_income s
        + e_hours e * sum_list (map c_hourly_rate
                                  (filter (\<lambda>c. c_client_name c = name) clients_df))
    \<and> ((\<forall>c \<in> set clients_df. c_client_name c = name \<longrightarrow> c_hourly_rate c = r)
          \<longrightarrow> hourly_income s' = hourly_income s + of_nat k * (e_hours e * r))"
proof -
  let ?rows = "filter (\<lambda>c. c_client_name c = name) clients_df"
  obtain s where s: "calculate_monthly_stats today year month clients_df time_entries_df
      invoices_df settings non_work_days_df = Inr s"
    using calculate_monthly_stats_eq [OF assms(1)] by blast
  obtain s' where s': "calculate_monthly_stats today year month clients_df
      (time_entries_df @ [e]) invoices_df settings non_work_days_df = Inr s'"
    using calculate_monthly_stats_eq [OF assms(1)] by blast
  have rows: "filter (\<lambda>c. c_client_name c = e_client_name e) (hourly_rows clients_df) = ?rows"
    using hourly_rows_same_name [OF assms(3)] assms(4) by simp
  have th: "total_hours s' = total_hours s + of_nat k * e_hours e"
    using stats_total_hours [OF assms(1), of today clients_df time_entries_df invoices_df
        settings non_work_days_df]
      stats_total_hours [OF assms(1), of today clients_df "time_entries_df @ [e]" invoices_df
        settings non_work_days_df]
    by (simp add: s s' rows assms(2) assms(5) mult.commute)
  have ei: "entry_income clients_df e = e_hours e * sum_list (map c_hourly_rate ?rows)"
    by (simp add: entry_income_def rows sum_list_scale)
  have hi: "hourly_income s' = hourly_income s + e_hours e * sum_list (map c_hourly_rate ?rows)"
    using stats_hourly_income [OF assms(1), of today clients_df time_entries_df invoices_df
        settings non_work_days_df]
      stats_hourly_income [OF assms(1), of today clients_df "time_entries_df @ [e]" invoices_df
        settings non_work_days_df]
    by (simp add: s s' ei assms(5))
  have same: "(\<forall>c \<in> set clients_df. c_client_name c = name \<longrightarrow> c_hourly_rate c = r)
          \<longrightarrow> hourly_income s' = hourly_income s + of_nat k * (e_hours e * r)"
  proof
    assume "\<forall>c \<in> set clients_df. c_client_name c = name \<longrightarrow> c_hourly_rate c = r"
    then have "\<forall>c \<in> set ?rows. c_hourly_rate c = r" by simp
    from sum_list_same_rate [OF this] assms(2)
    have "sum_list (map c_hourly_rate ?rows) = of_nat k * r" by simp
    with hi show "hourly_income s' = hourly_income s + of_nat k * (e_hours e * r)"
      by (simp add: algebra_simps)
  qed
  from s s' th hi same show ?thesis by blast
qed

theorem duplicate_roster_rows_multiply_witness:
  "valid_month 2024 3
   \<and> length (filter (\<lambda>c. c_client_name c = ''Acme'') [acme, acme]) = 2
   \<and> in_month 2024 3 (e_date (acme_entry 2024 3 1 0 5))
   \<and> map_sum id total_hours
       (calculate_monthly_stats (mk_date 2024 3 5) 2024 3 [acme, acme]
          ([] @ [acme_entry 2024 3 1 0 5]) [] example_settings []) = Inr 10
   \<and> map_sum id hourly_income
       (calculate_monthly_stats (mk_date 2024 3 5) 2024 3 [acme, acme]
          ([] @ [acme_entry 2024 3 1 0 5]) [] example_settings []) = Inr 1000"
proof -
  have k: "length (filter (\<lambda>c. c_client_name c = ''Acme'') [acme, acme]) = 2"
    by (simp add: acme_def)
  have h: "\<forall>c \<in> set [acme, acme]. c_client_name c = ''Acme'' \<longrightarrow> c_billing_type c = ''Hourly''"
    by (simp add: acme_def)
  have n: "e_client_name (acme_entry 2024 3 1 0 5) = ''Acme''"
    by (simp add: acme_entry_def)
  have w: "in_month 2024 3 (e_date (acme_entry 2024 3 1 0 5))"
    by (simp add: in_month_def ts_le_def date_le_def midnight_def acme_entry_def mk_date_def
        monthlen_def)
  have r: "\<forall>c \<in> set [acme, acme]. c_client_name c = ''Acme'' \<longrightarrow> c_hourly_rate c = 100"
    by (simp add: acme_def)
  from duplicate_roster_rows_multiply [OF valid_2024_3 k h n w,
      where today = "mk_date 2024 3 5" and time_entries_df = "[]" and invoices_df = "[]"
        and settings = example_settings and non_work_days_df = "[]" and r = 100]
  obtain s s' where
    s: "calculate_monthly_stats (mk_date 2024 3 5) 2024 3 [acme, acme] [] []
          example_settings [] = Inr s"
    and s': "calculate_monthly_stats (mk_date 2024 3 5) 2024 3 [acme, acme]
          ([] @ [acme_entry 2024 3 1 0 5]) [] example_settings [] = Inr s'"
    and th: "total_hours s' = total_hours s + of_nat 2 * e_hours (acme_entry 2024 3 1 0 5)"
    and hi: "(\<forall>c \<in> set [acme, acme]. c_client_name c = ''Acme'' \<longrightarrow> c_hourly_rate c = 100)
          \<longrightarrow> hourly_income s' =
              hourly_income s + of_nat 2 * (e_hours (acme_entry 2024 3 1 0 5) * 100)"
    by blast
  have z: "map_sum id (\<lambda>s. (total_hours s, hourly_income s))
       (calculate_monthly_stats (mk_date 2024 3 5) 2024 3 [acme, acme] [] []
          example_settings []) = Inr (0, 0)"
    by code_simp
  then have z1: "total_hours s = 0" and z2: "hourly_income s = 0"
    by (simp_all add: s)
  from th z1 have a: "total_hours s' = 10" by (simp add: acme_entry_def)
  from hi r z2 have b: "hourly_income s' = 1000" by (simp add: acme_entry_def)
  from valid_2024_3 k w a b show ?thesis by (simp only: s' map_sum.simps id_apply simp_thms)
qed

end
